theory Spec2Isabelle
  imports Main
begin

section \<open>Outcomes of a check\<close>

text \<open>
  A check (\<^verbatim>\<open>Thunk\<close>) returns an exit code and a message. Two things can keep it from
  returning: \<^verbatim>\<open>log.Fatal\<close>, which prints its message and ends the process, and a
  run-time panic (an index or a slice bound out of range).
\<close>

datatype failure = Fatal string | Panic string

type_synonym outcome = "failure + (int \<times> string)"

section \<open>The Go library functions the checks call\<close>

subsection \<open>Package strings\<close>

fun HasPrefix :: "string \<Rightarrow> string \<Rightarrow> bool" where
  "HasPrefix s [] = True"
| "HasPrefix [] (p # ps) = False"
| "HasPrefix (c # cs) (p # ps) = (c = p \<and> HasPrefix cs ps)"

fun Contains :: "string \<Rightarrow> string \<Rightarrow> bool" where
  "Contains [] substr = HasPrefix [] substr"
| "Contains (c # cs) substr = (HasPrefix (c # cs) substr \<or> Contains cs substr)"

definition TrimPrefix :: "string \<Rightarrow> string \<Rightarrow> string" where
  "TrimPrefix s p = (if HasPrefix s p then drop (length p) s else s)"

text \<open>\<^verbatim>\<open>strings.Split(s, sep)\<close> for a separator of one byte (the source only splits on a
  space): every separator ends a field, so \<open>n\<close> separators give \<open>n + 1\<close> fields, empty
  ones included.\<close>

fun Split :: "string \<Rightarrow> char \<Rightarrow> string list" where
  "Split [] sep = [[]]"
| "Split (c # cs) sep =
     (if c = sep then [] # Split cs sep
      else (case Split cs sep of
              [] \<Rightarrow> [[c]]
            | w # ws \<Rightarrow> (c # w) # ws))"

subsection \<open>Package fmt\<close>

text \<open>\<^verbatim>\<open>fmt.Sprint\<close> of a slice of strings: the elements between brackets, separated by
  single spaces.\<close>

fun join_spaces :: "string list \<Rightarrow> string" where
  "join_spaces [] = []"
| "join_spaces [x] = x"
| "join_spaces (x # y # ys) = x @ '' '' @ join_spaces (y # ys)"

definition Sprint :: "string list \<Rightarrow> string" where
  "Sprint xs = ''['' @ join_spaces xs @ '']''"

subsection \<open>Package regexp\<close>

text \<open>
  Every pattern of the source is a sequence of single-character classes, each taken once,
  one or more times (\<open>+\<close>) or any number of times (\<open>*\<close>), with or without a leading \<open>^\<close>.
  The classes are a literal byte, \<^verbatim>\<open>[^x]\<close> (which matches a newline too), \<^verbatim>\<open>\s\<close>
  (tab, newline, form feed, carriage return, space), \<^verbatim>\<open>.\<close> (anything but a newline) and
  \<^verbatim>\<open>(\w|\-)\<close> (a letter, a digit, an underscore or a hyphen).
\<close>

datatype cclass = Lit char | NotLit char | Space | AnyNoNL | WordHyphen

definition isWord :: "char \<Rightarrow> bool" where
  "isWord c =
     (let n = (of_char c :: nat)
      in (48 \<le> n \<and> n \<le> 57) \<or> (65 \<le> n \<and> n \<le> 90) \<or> (97 \<le> n \<and> n \<le> 122) \<or> n = 95)"

fun accepts :: "cclass \<Rightarrow> char \<Rightarrow> bool" where
  "accepts (Lit a) c = (c = a)"
| "accepts (NotLit a) c = (c \<noteq> a)"
| "accepts Space c = (c = CHR 0x09 \<or> c = CHR 0x0A \<or> c = CHR 0x0C \<or> c = CHR 0x0D \<or> c = CHR '' '')"
| "accepts AnyNoNL c = (c \<noteq> CHR 0x0A)"
| "accepts WordHyphen c = (isWord c \<or> c = CHR ''-'')"

datatype quant = Once | Plus | Star

type_synonym atom = "cclass \<times> quant"

record regex =
  anchored :: bool
  atoms :: "atom list"

text \<open>
  Go's matcher prefers, among the matches that start at one position, the one a
  backtracking matcher finds first: a repetition takes as many characters as it can and
  gives them back one at a time when the rest of the pattern fails. \<open>rmatch\<close> returns
  what is left of the text after that match.
\<close>

fun rmatch :: "atom list \<Rightarrow> string \<Rightarrow> string option" where
  "rmatch [] s = Some s"
| "rmatch ((k, Once) # as) [] = None"
| "rmatch ((k, Once) # as) (c # cs) = (if accepts k c then rmatch as cs else None)"
| "rmatch ((k, Plus) # as) [] = None"
| "rmatch ((k, Plus) # as) (c # cs) =
     (if accepts k c then rmatch ((k, Star) # as) cs else None)"
| "rmatch ((k, Star) # as) [] = rmatch as []"
| "rmatch ((k, Star) # as) (c # cs) =
     (if accepts k c
      then (case rmatch ((k, Star) # as) cs of
              Some r \<Rightarrow> Some r
            | None \<Rightarrow> rmatch as (c # cs))
      else rmatch as (c # cs))"

text \<open>The leftmost match in \<open>s\<close>: its start and its end, counted from the head of \<open>s\<close>.\<close>

fun search :: "atom list \<Rightarrow> string \<Rightarrow> (nat \<times> nat) option" where
  "search as [] = (case rmatch as [] of None \<Rightarrow> None | Some r \<Rightarrow> Some (0, 0))"
| "search as (c # cs) =
     (case rmatch as (c # cs) of
        Some r \<Rightarrow> Some (0, length (c # cs) - length r)
      | None \<Rightarrow> (case search as cs of
                  None \<Rightarrow> None
                | Some (b, e) \<Rightarrow> Some (Suc b, Suc e)))"

text \<open>One execution of the pattern on \<open>s\<close> from position \<open>pos\<close>; \<open>^\<close> only matches at
  the beginning of the text.\<close>

definition doExecute :: "regex \<Rightarrow> string \<Rightarrow> nat \<Rightarrow> (nat \<times> nat) option" where
  "doExecute re s pos =
     (if anchored re
      then (if pos = 0
            then (case rmatch (atoms re) s of
                    None \<Rightarrow> None
                  | Some r \<Rightarrow> Some (0, length s - length r))
            else None)
      else (case search (atoms re) (drop pos s) of
              None \<Rightarrow> None
            | Some (b, e) \<Rightarrow> Some (pos + b, pos + e)))"

definition MatchString :: "regex \<Rightarrow> string \<Rightarrow> bool" where
  "MatchString re s = (doExecute re s 0 \<noteq> None)"

definition FindString :: "regex \<Rightarrow> string \<Rightarrow> string" where
  "FindString re s =
     (case doExecute re s 0 of
        None \<Rightarrow> []
      | Some (b, e) \<Rightarrow> take (e - b) (drop b s))"

text \<open>
  \<^verbatim>\<open>allMatches\<close> of the library, which \<^verbatim>\<open>FindAllString\<close> and \<^verbatim>\<open>Split\<close> run: execute
  the pattern from \<open>pos\<close>; an empty match right after the previous match is dropped, and
  after an empty match the search moves on by one byte.
\<close>

lemma search_start_le_end: "search as s = Some (b, e) \<Longrightarrow> b \<le> e"
  by (induction s arbitrary: b e) (auto split: option.splits)

lemma doExecute_pos_le_end: "doExecute re s pos = Some (b, e) \<Longrightarrow> pos \<le> e"
  by (auto simp: doExecute_def split: if_splits option.splits dest: search_start_le_end)

function allMatches :: "regex \<Rightarrow> string \<Rightarrow> nat \<Rightarrow> int \<Rightarrow> (nat \<times> nat) list" where
  "allMatches re s pos prevMatchEnd =
     (if pos \<le> length s
      then (case doExecute re s pos of
              None \<Rightarrow> []
            | Some (m0, m1) \<Rightarrow>
                (if m1 = pos
                 then (if int m0 = prevMatchEnd
                       then allMatches re s (pos + 1) (int m1)
                       else (m0, m1) # allMatches re s (pos + 1) (int m1))
                 else (m0, m1) # allMatches re s m1 (int m1)))
      else [])"
  by pat_completeness auto
termination
proof (relation "measure (\<lambda>(re, s, pos, prev). Suc (length s) - pos)")
  show "wf (measure (\<lambda>(re, s, pos, prev). Suc (length s) - pos))"
    by simp
next
  fix re :: regex and s :: string and pos :: nat and prevMatchEnd :: int
    and x2 :: "nat \<times> nat" and m0 m1 :: nat
  assume "pos \<le> length s" "doExecute re s pos = Some x2" "(m0, m1) = x2" "m1 \<noteq> pos"
  then have "pos < m1"
    using doExecute_pos_le_end [of re s pos m0 m1] by simp
  with \<open>pos \<le> length s\<close>
  show "((re, s, m1, int m1), re, s, pos, prevMatchEnd)
          \<in> measure (\<lambda>(re, s, pos, prev). Suc (length s) - pos)"
    by simp
qed auto

declare allMatches.simps [simp del]


text \<open>The loop of \<^verbatim>\<open>(*Regexp).Split(s, -1)\<close> over the matches: \<open>beg\<close> is where the
  next field starts, \<open>end\<close> where the last match started.\<close>

fun split_loop :: "string \<Rightarrow> (nat \<times> nat) list \<Rightarrow> nat \<Rightarrow> nat \<Rightarrow> string list \<Rightarrow> string list" where
  "split_loop s [] beg end strings =
     (if end \<noteq> length s then strings @ [drop beg s] else strings)"
| "split_loop s ((m0, m1) # ms) beg end strings =
     split_loop s ms m1 m0
       (if m1 \<noteq> 0 then strings @ [take (m0 - beg) (drop beg s)] else strings)"

definition regexp_Split :: "regex \<Rightarrow> string \<Rightarrow> string list" where
  "regexp_Split re s =
     (if (anchored re \<or> atoms re \<noteq> []) \<and> s = [] then [[]]
      else split_loop s (allMatches re s 0 (- 1)) 0 0 [])"

section \<open>Helpers of the repository that are not among the sources\<close>

text \<open>
  Modelled from the spec: \<^verbatim>\<open>genericError\<close> (the generic mismatch reporter) is called by the
  checks but not defined in the two source files. The spec has it return failure code 1
  with the message \<^verbatim>\<open><label>\n\tExpected: <expected>\n\tCandidates: <candidates>\<close>; the
  candidates are rendered as \<^verbatim>\<open>fmt.Sprint\<close> renders a slice.
\<close>

definition genericError :: "string \<Rightarrow> string \<Rightarrow> string list \<Rightarrow> int \<times> string" where
  "genericError label expected candidates =
     (1, label @ [CHR 0x0A, CHR 0x09] @ ''Expected: '' @ expected
           @ [CHR 0x0A, CHR 0x09] @ ''Candidates: '' @ Sprint candidates)"

text \<open>
  Modelled from the spec: \<^verbatim>\<open>strIn\<close> is not defined in the two source files; the spec's
  match rule for the checks that call it is exact membership in the candidate sequence.
\<close>

fun strIn :: "string \<Rightarrow> string list \<Rightarrow> bool" where
  "strIn str [] = False"
| "strIn str (x # xs) = (x = str \<or> strIn str xs)"

text \<open>
  Modelled from the spec: \<^verbatim>\<open>commandColumnNoHeader\<close> is not defined in the two source
  files. The spec's tabular output reader splits each line after the header into fields
  and returns the field at the column index of every line that has one; a shorter line
  contributes nothing. The model takes the command's output as that table: the lines
  after the header, each the list of its fields.
\<close>

type_synonym table = "string list list"

fun commandColumnNoHeader :: "nat \<Rightarrow> table \<Rightarrow> string list" where
  "commandColumnNoHeader col [] = []"
| "commandColumnNoHeader col (line # rest) =
     (if col < length line then line ! col # commandColumnNoHeader col rest
      else commandColumnNoHeader col rest)"

section \<open>packages.go\<close>

subsection \<open>Installed\<close>

text \<open>
  \<open>start\<close> is what \<^verbatim>\<open>exec.Command(program, "--version").Start()\<close> answers on the host:
  \<open>None\<close> for no error, \<open>Some m\<close> for an error whose text is \<open>m\<close>.
\<close>

fun getManager_loop :: "(string \<Rightarrow> string option) \<Rightarrow> string list \<Rightarrow> string option" where
  "getManager_loop start [] = None"
| "getManager_loop start (program # rest) =
     (let message = (case start program of None \<Rightarrow> [] | Some err \<Rightarrow> err)
      in if Contains message ''not found'' = False then Some program
         else getManager_loop start rest)"

definition getManager :: "(string \<Rightarrow> string option) \<Rightarrow> string list \<Rightarrow> failure + string" where
  "getManager start managers =
     (case getManager_loop start managers of
        Some program \<Rightarrow> Inr program
      | None \<Rightarrow> Inl (Fatal (''No package manager found. Attempted: '' @ Sprint managers)))"






text \<open>A host on which \<^verbatim>\<open>dpkg\<close> is not installed, \<^verbatim>\<open>rpm\<close> cannot be run and \<^verbatim>\<open>pacman\<close>
  starts.\<close>

definition start_example :: "string \<Rightarrow> string option" where
  "start_example program =
     (if program = ''dpkg'' then Some ''exec: dpkg: executable file not found in $PATH''
      else if program = ''rpm'' then Some ''fork/exec /usr/bin/rpm: permission denied''
      else None)"

definition managers :: "string \<rightharpoonup> string" where
  "managers = [''dpkg'' \<mapsto> ''-s'', ''rpm'' \<mapsto> ''-q'', ''pacman'' \<mapsto> ''-Qs'']"

text \<open>Reading a Go map at a key it does not hold gives the empty string.\<close>

definition managers_at :: "string \<Rightarrow> string" where
  "managers_at name = (case managers name of None \<Rightarrow> [] | Some options \<Rightarrow> options)"

text \<open>
  \<open>keys\<close> are the keys of \<open>managers\<close> in the order the map's iteration gave them (Go does
  not fix it); \<open>output name options pkg\<close> is the standard output of the query command.
\<close>

definition Installed ::
  "(string \<Rightarrow> string option) \<Rightarrow> string list \<Rightarrow> (string \<Rightarrow> string \<Rightarrow> string \<Rightarrow> string)
     \<Rightarrow> string \<Rightarrow> outcome" where
  "Installed start keys output pkg =
     (case getManager start keys of
        Inl f \<Rightarrow> Inl f
      | Inr name \<Rightarrow>
          (let options = managers_at name;
               out = output name options pkg
           in if Contains out pkg then Inr (0, [])
              else Inr (1, ''Package was not found:''
                          @ [CHR 0x0A, CHR 0x09] @ ''Package name: '' @ pkg
                          @ [CHR 0x0A, CHR 0x09] @ ''Package manager: '' @ name)))"

text \<open>A query command that only knows the package \<^verbatim>\<open>bash\<close>, through \<^verbatim>\<open>rpm -q\<close>.\<close>

definition output_example :: "string \<Rightarrow> string \<Rightarrow> string \<Rightarrow> string" where
  "output_example name options pkg =
     (if name = ''rpm'' \<and> options = ''-q'' \<and> pkg = ''bash'' then ''bash-5.2.26-1.fc38.x86_64''
      else ''package is not installed'')"

subsection \<open>PPA\<close>

definition commentRegex :: regex where
  "commentRegex = \<lparr>anchored = True, atoms = [(Space, Star), (Lit CHR ''#'', Once), (AnyNoNL, Star)]\<rparr>"

text \<open>\<open>split\<close> is \<^verbatim>\<open>stringToSlice(fileToString(path))\<close>: the lines of the file, each
  split into its fields.\<close>

fun getAptSources :: "table \<Rightarrow> string list" where
  "getAptSources [] = []"
| "getAptSources (line # rest) =
     (if length line > 1 \<and> \<not> MatchString commentRegex (line ! 0)
      then line ! 1 # getAptSources rest
      else getAptSources rest)"

definition getPPAs :: "table \<Rightarrow> string list" where
  "getPPAs split = filter (\<lambda>url. Contains url ''ppa'') (getAptSources split)"

text \<open>The loop of the check over the PPAs: \<open>Some\<close> is a return from inside the loop.
  \<open>validURL\<close> is whether \<^verbatim>\<open>url.Parse\<close> accepts the string.\<close>

fun PPA_loop :: "(string \<Rightarrow> bool) \<Rightarrow> string \<Rightarrow> string list \<Rightarrow> (int \<times> string) option" where
  "PPA_loop validURL name [] = None"
| "PPA_loop validURL name (ppa # rest) =
     (if \<not> validURL ppa then Some (1, ''PPA URL invalid: '' @ ppa)
      else if Contains ppa name then Some (0, [])
      else PPA_loop validURL name rest)"

definition PPA :: "table \<Rightarrow> (string \<Rightarrow> bool) \<Rightarrow> string \<Rightarrow> outcome" where
  "PPA sources validURL name =
     (let ppas = getPPAs sources
      in case PPA_loop validURL name ppas of
           Some r \<Rightarrow> Inr r
         | None \<Rightarrow> Inr (genericError ''PPA not found'' name ppas))"

text \<open>A sources file with two PPAs, the second with a broken escape, and a stand-in for
  \<^verbatim>\<open>url.Parse\<close> that refuses that escape.\<close>

definition sources_example :: table where
  "sources_example =
     [[''deb'', ''http://ppa.launchpad.net/git-core/ppa/ubuntu'', ''trusty'', ''main''],
      [''#'', ''deb'', ''http://ppa.launchpad.net/old/ppa/ubuntu'', ''trusty'', ''main''],
      [''deb'', ''http://archive.ubuntu.com/ubuntu'', ''trusty'', ''main''],
      [''deb'', ''http://ppa.launchpad.net/%zz/ppa/ubuntu'', ''trusty'', ''main'']]"

definition url_parses_example :: "string \<Rightarrow> bool" where
  "url_parses_example urlstr = (\<not> Contains urlstr ''%zz'')"

subsection \<open>Yum repositories\<close>

record YumRepo =
  Name :: string
  Fullname :: string
  Url :: string

text \<open>The first loop of \<^verbatim>\<open>getYumRepos\<close>, over the lines of the file.\<close>

fun collect :: "string list \<Rightarrow> string list \<Rightarrow> string list \<Rightarrow> string list \<times> string list" where
  "collect [] fullNames urls = (fullNames, urls)"
| "collect (strLine # rest) fullNames urls =
     (if \<not> MatchString commentRegex strLine
      then (let replaceName = TrimPrefix strLine ''name='';
                replaceURL = TrimPrefix strLine ''baseurl=''
            in if replaceName \<noteq> strLine then collect rest (fullNames @ [replaceName]) urls
               else if replaceURL \<noteq> strLine then collect rest fullNames (urls @ [replaceURL])
               else collect rest fullNames urls)
      else collect rest fullNames urls)"

text \<open>The lines the loop passes over without adding to either column: comments, and
  lines that start with neither prefix.\<close>

definition skipped :: "string \<Rightarrow> bool" where
  "skipped strLine =
     (MatchString commentRegex strLine
      \<or> (HasPrefix strLine ''name='' = False \<and> HasPrefix strLine ''baseurl='' = False))"

definition whitespaceRegex :: regex where
  "whitespaceRegex = \<lparr>anchored = False, atoms = [(Space, Plus)]\<rparr>"

text \<open>Indexing a slice panics out of range.\<close>

definition at_index :: "'a list \<Rightarrow> int \<Rightarrow> failure + 'a" where
  "at_index xs i =
     (if 0 \<le> i \<and> i < int (length xs) then Inr (xs ! nat i)
      else Inl (Panic ''index out of range''))"

text \<open>The second loop, over the indices of \<open>shortList\<close>.\<close>

fun construct :: "string list \<Rightarrow> string list \<Rightarrow> nat list \<Rightarrow> YumRepo list \<Rightarrow> failure + YumRepo list" where
  "construct fullNames urls [] repos = Inr repos"
| "construct fullNames urls (i # is) repos =
     (case at_index fullNames (int i) of
        Inl f \<Rightarrow> Inl f
      | Inr fullName \<Rightarrow>
          (let nameSplit = regexp_Split whitespaceRegex fullName
           in case at_index nameSplit (int (length nameSplit) - 1) of
                Inl f \<Rightarrow> Inl f
              | Inr shortName \<Rightarrow>
                  (case at_index urls (int i) of
                     Inl f \<Rightarrow> Inl f
                   | Inr url \<Rightarrow>
                       construct fullNames urls is
                         (repos @ [\<lparr>Name = shortName, Fullname = fullName, Url = url\<rparr>]))))"

text \<open>The record assembler: the part of \<^verbatim>\<open>getYumRepos\<close> after the two columns are
  collected.\<close>

definition assemble :: "string list \<Rightarrow> string list \<Rightarrow> failure + YumRepo list" where
  "assemble fullNames urls =
     (let shortList = (if length fullNames > length urls then urls else fullNames)
      in construct fullNames urls [0..<length shortList] [])"

text \<open>The record the body of that loop builds from a full name and a URL, when no index
  is out of range.\<close>

definition repo_of :: "string \<Rightarrow> string \<Rightarrow> YumRepo" where
  "repo_of fullName url =
     \<lparr>Name = last (regexp_Split whitespaceRegex fullName), Fullname = fullName, Url = url\<rparr>"

text \<open>\<open>lines\<close> is \<^verbatim>\<open>fileToLines(path)\<close>.\<close>

definition getYumRepos :: "string list \<Rightarrow> failure + YumRepo list" where
  "getYumRepos lines = (case collect lines [] [] of (fullNames, urls) \<Rightarrow> assemble fullNames urls)"

text \<open>A configuration file with one repository among other lines.\<close>

definition yum_conf_example :: "string list" where
  "yum_conf_example =
     [''[updates]'',
      ''name=Fedora 38 - x86_64 (updates)'',
      ''# the mirror to use'',
      ''baseurl=https://example.com/updates'',
      ''enabled=1'']"

fun properties_loop :: "string \<Rightarrow> YumRepo list \<Rightarrow> string list \<Rightarrow> failure + string list" where
  "properties_loop prop [] properties = Inr properties"
| "properties_loop prop (repo # rest) properties =
     (if prop = ''Url'' then properties_loop prop rest (properties @ [Url repo])
      else if prop = ''Name'' then properties_loop prop rest (properties @ [Name repo])
      else if prop = ''Fullname'' then properties_loop prop rest (properties @ [Fullname repo])
      else Inl (Fatal (''Yum repos don't have the requested property: '' @ prop)))"

definition existsRepoWithProperty :: "string list \<Rightarrow> string \<Rightarrow> string \<Rightarrow> outcome" where
  "existsRepoWithProperty lines prop val =
     (case getYumRepos lines of
        Inl f \<Rightarrow> Inl f
      | Inr repos \<Rightarrow>
          (case properties_loop prop repos [] of
             Inl f \<Rightarrow> Inl f
           | Inr properties \<Rightarrow>
               (if strIn val properties then Inr (0, [])
                else Inr (genericError (''Yum repo with given '' @ prop @ '' not found'')
                            val properties))))"

definition YumRepoExists :: "string list \<Rightarrow> string \<Rightarrow> outcome" where
  "YumRepoExists lines name = existsRepoWithProperty lines ''Name'' name"


subsection \<open>pacmanIgnore\<close>

definition ignoreRegex :: regex where
  "ignoreRegex =
     \<lparr>anchored = False,
      atoms = (NotLit CHR ''#'', Once) # map (\<lambda>c. (Lit c, Once)) ''IgnorePkg''
                @ [(Space, Plus), (Lit CHR ''='', Once), (Space, Plus), (AnyNoNL, Plus)]\<rparr>"

text \<open>\<open>data\<close> is \<^verbatim>\<open>fileToString("/etc/pacman.conf")\<close>.\<close>

definition pacmanIgnore :: "string \<Rightarrow> string \<Rightarrow> outcome" where
  "pacmanIgnore data pkg =
     (let find = FindString ignoreRegex data;
          msg = ''Couldn't find package in IgnorePkg''
      in if find \<noteq> []
         then (let spl = Split find CHR '' ''
               in if length spl > 2
                  then (let packages = drop 2 spl
                        in if strIn pkg packages then Inr (0, [])
                           else Inr (genericError msg pkg packages))
                  else Inr (genericError msg pkg []))
         else Inr (genericError msg pkg []))"

section \<open>systemctl.go\<close>

text \<open>\<open>err\<close> is the error of \<^verbatim>\<open>exec.Command("systemctl", "--version").CombinedOutput()\<close>.\<close>

definition systemctlExists :: "string option \<Rightarrow> bool" where
  "systemctlExists err =
     (case err of
        None \<Rightarrow> True
      | Some m \<Rightarrow> (if Contains m ''not found in $PATH'' then False else True))"

definition systemctlShouldExist :: "string option \<Rightarrow> failure option" where
  "systemctlShouldExist err =
     (if \<not> systemctlExists err then Some (Fatal ''Couldn't execute systemctl'') else None)"

text \<open>How a loop with a \<^verbatim>\<open>return 0, ""\<close> in its body ends: by that return, or by running
  out of elements, with the last state it read.\<close>

datatype loop_exit = Returned | Done string

subsection \<open>systemctlService\<close>

fun service_loop ::
  "string \<Rightarrow> string \<Rightarrow> string list \<Rightarrow> string list \<Rightarrow> nat \<Rightarrow> string \<Rightarrow> loop_exit" where
  "service_loop service state [] statuses i actualState = Done actualState"
| "service_loop service state (srv # rest) statuses i actualState =
     (if service = srv \<and> length statuses > i
      then (if statuses ! i = state then Returned
            else service_loop service state rest statuses (Suc i) (statuses ! i))
      else service_loop service state rest statuses (Suc i) actualState)"

text \<open>The command runs twice, once for each column: \<open>units\<close> is the table of the first
  run and \<open>units2\<close> the table of the second.\<close>

definition systemctlService :: "string option \<Rightarrow> table \<Rightarrow> table \<Rightarrow> string \<Rightarrow> bool \<Rightarrow> outcome" where
  "systemctlService err units units2 service loaded =
     (case systemctlShouldExist err of
        Some f \<Rightarrow> Inl f
      | None \<Rightarrow>
          (let column = (if loaded then 1 else 2);
               state = (if loaded then ''loaded'' else ''active'');
               names = commandColumnNoHeader 1 units;
               statuses = commandColumnNoHeader (column + 1) units2
           in case service_loop service state names statuses 0 [] of
                Returned \<Rightarrow> Inr (0, [])
              | Done actualState \<Rightarrow>
                  Inr (genericError ''Service did not have state'' state [actualState])))"

definition systemctlLoaded :: "string option \<Rightarrow> table \<Rightarrow> table \<Rightarrow> string \<Rightarrow> outcome" where
  "systemctlLoaded err units units2 service = systemctlService err units units2 service True"

definition systemctlActive :: "string option \<Rightarrow> table \<Rightarrow> table \<Rightarrow> string \<Rightarrow> outcome" where
  "systemctlActive err units units2 service = systemctlService err units units2 service False"

text \<open>A table of two units, as the column reader sees the lines of \<^verbatim>\<open>list-units\<close>: the
  unit name is field 1, the load state field 2 and the active state field 3.\<close>

definition units_example :: table where
  "units_example =
     [[[], ''nginx.service'', ''loaded'', ''active'', ''running'', ''nginx''],
      [[], ''cups.service'', ''loaded'', ''inactive'', ''dead'', ''CUPS'']]"

text \<open>Two tables with a first row that has a name field and no state field.\<close>

definition ragged_units_example :: table where
  "ragged_units_example =
     [[[], ''a.service''],
      [[], ''nginx.service'', ''loaded'', ''active'', ''running'', ''nginx'']]"

definition shifted_units_example :: table where
  "shifted_units_example =
     [[[], ''a.service''],
      [[], ''nginx.service'', ''loaded'', ''inactive'', ''dead'', ''nginx''],
      [[], ''cups.service'', ''loaded'', ''active'', ''running'', ''CUPS'']]"

subsection \<open>systemctlSock\<close>




subsection \<open>Timers\<close>






subsection \<open>systemctlUnitFileStatus\<close>

text \<open>The slice expression \<^verbatim>\<open>xs[:hi]\<close>: it panics unless \<open>0 \<le> hi \<le> len(xs)\<close> (the slices
  here have no spare capacity to reach into).\<close>

definition slice_to :: "'a list \<Rightarrow> int \<Rightarrow> failure + 'a list" where
  "slice_to xs hi =
     (if 0 \<le> hi \<and> hi \<le> int (length xs) then Inr (take (nat hi) xs)
      else Inl (Panic ''slice bounds out of range''))"

definition getUnitFilesWithStatuses :: "table \<Rightarrow> table \<Rightarrow> failure + (string list \<times> string list)" where
  "getUnitFilesWithStatuses files files2 =
     (let units = commandColumnNoHeader 0 files;
          statuses = commandColumnNoHeader 1 files2
      in case slice_to units (int (length units) - 2) of
           Inl f \<Rightarrow> Inl f
         | Inr us \<Rightarrow>
             (case slice_to statuses (int (length statuses) - 2) of
                Inl f \<Rightarrow> Inl f
              | Inr ss \<Rightarrow> Inr (us, ss)))"

fun unit_loop ::
  "string \<Rightarrow> string \<Rightarrow> string list \<Rightarrow> string list \<Rightarrow> nat \<Rightarrow> string \<Rightarrow> failure + loop_exit" where
  "unit_loop unit status [] statuses i actualStatus = Inr (Done actualStatus)"
| "unit_loop unit status (un # rest) statuses i actualStatus =
     (if un = unit
      then (case at_index statuses (int i) of
              Inl f \<Rightarrow> Inl f
            | Inr found \<Rightarrow>
                (if found = status then Inr Returned
                 else unit_loop unit status rest statuses (Suc i) found))
      else unit_loop unit status rest statuses (Suc i) actualStatus)"

definition systemctlUnitFileStatus :: "table \<Rightarrow> table \<Rightarrow> string \<Rightarrow> string \<Rightarrow> outcome" where
  "systemctlUnitFileStatus files files2 unit status =
     (case getUnitFilesWithStatuses files files2 of
        Inl f \<Rightarrow> Inl f
      | Inr (units, statuses) \<Rightarrow>
          (case unit_loop unit status units statuses 0 [] of
             Inl f \<Rightarrow> Inl f
           | Inr Returned \<Rightarrow> Inr (0, [])
           | Inr (Done actualStatus) \<Rightarrow>
               Inr (genericError ''Unit didn't have status'' status [actualStatus])))"

section \<open>The catalog of checks\<close>







section \<open>Facts about the library functions\<close>

lemma HasPrefix_iff: "HasPrefix s p \<longleftrightarrow> (\<exists>r. s = p @ r)"
  by (induction s p rule: HasPrefix.induct) auto

lemma Contains_iff: "Contains s substr \<longleftrightarrow> (\<exists>pre post. s = pre @ substr @ post)"
proof (induction s)
  case Nil
  then show ?case by (auto simp: HasPrefix_iff)
next
  case (Cons c cs)
  show ?case
  proof
    assume "Contains (c # cs) substr"
    then consider "HasPrefix (c # cs) substr" | "Contains cs substr" by auto
    then show "\<exists>pre post. c # cs = pre @ substr @ post"
    proof cases
      case 1
      then obtain r where "c # cs = substr @ r" by (auto simp: HasPrefix_iff)
      then have "c # cs = [] @ substr @ r" by simp
      then show ?thesis by blast
    next
      case 2
      with Cons obtain pre post where "cs = pre @ substr @ post" by auto
      then have "c # cs = (c # pre) @ substr @ post" by simp
      then show ?thesis by blast
    qed
  next
    assume "\<exists>pre post. c # cs = pre @ substr @ post"
    then obtain pre post where eq: "c # cs = pre @ substr @ post" by auto
    show "Contains (c # cs) substr"
    proof (cases pre)
      case Nil
      with eq have "HasPrefix (c # cs) substr" by (auto simp: HasPrefix_iff)
      then show ?thesis by simp
    next
      case (Cons a pre')
      with eq have "cs = pre' @ substr @ post" by simp
      then have "Contains cs substr" using Cons.IH by blast
      then show ?thesis by simp
    qed
  qed
qed

lemma Contains_empty [simp]: "Contains s []"
  by (cases s) auto

lemma strIn_iff: "strIn str xs \<longleftrightarrow> str \<in> set xs"
  by (induction xs) auto

lemma rmatch_Star_length: "rmatch [(k, Star)] s = Some r \<Longrightarrow> length r \<le> length s"
  by (induction s arbitrary: r) (auto split: if_splits option.splits)

lemma search_Plus_nonempty: "search [(k, Plus)] s = Some (b, e) \<Longrightarrow> b < e"
proof (induction s arbitrary: b e)
  case Nil
  then show ?case by simp
next
  case (Cons c cs)
  then show ?case
    by (auto split: option.splits if_splits dest!: rmatch_Star_length)
qed

lemma doExecute_whitespace_nonempty:
  "doExecute whitespaceRegex s pos = Some (m0, m1) \<Longrightarrow> m0 < m1"
  by (auto simp: doExecute_def whitespaceRegex_def split: option.splits
      dest: search_Plus_nonempty)

lemma split_loop_keeps: "strings \<noteq> [] \<Longrightarrow> split_loop s ms beg e strings \<noteq> []"
  by (induction s ms beg e strings rule: split_loop.induct) auto

text \<open>Splitting on \<^verbatim>\<open>\s+\<close> always gives at least one field, so the last field exists.\<close>

lemma regexp_Split_whitespace_nonempty: "regexp_Split whitespaceRegex s \<noteq> []"
proof (cases "s = []")
  case True
  then show ?thesis by (simp add: regexp_Split_def whitespaceRegex_def)
next
  case False
  show ?thesis
  proof (cases "allMatches whitespaceRegex s 0 (- 1)")
    case Nil
    with False show ?thesis by (simp add: regexp_Split_def)
  next
    case (Cons m ms)
    obtain m0 m1 where m: "m = (m0, m1)" by (cases m)
    have "doExecute whitespaceRegex s 0 = Some (m0, m1)"
      using Cons m by (subst (asm) allMatches.simps) (auto split: option.splits if_splits)
    then have "m1 \<noteq> 0" using doExecute_whitespace_nonempty by fastforce
    then show ?thesis
      using Cons m False by (simp add: regexp_Split_def split_loop_keeps)
  qed
qed

lemma at_index_in: "i < length xs \<Longrightarrow> at_index xs (int i) = Inr (xs ! i)"
  by (simp add: at_index_def)

lemma at_index_last: "xs \<noteq> [] \<Longrightarrow> at_index xs (int (length xs) - 1) = Inr (last xs)"
  by (cases xs rule: rev_cases) (auto simp: at_index_def nth_append)

section \<open>The record assembler\<close>

lemma construct_in_range:
  "\<forall>i \<in> set is. i < length fullNames \<and> i < length urls \<Longrightarrow>
   construct fullNames urls is repos =
     Inr (repos @ map (\<lambda>i. repo_of (fullNames ! i) (urls ! i)) is)"
proof (induction "is" arbitrary: repos)
  case Nil
  then show ?case by simp
next
  case (Cons i "is")
  then show ?case
    by (simp add: at_index_in at_index_last regexp_Split_whitespace_nonempty repo_of_def)
qed

lemma map_upt_zip:
  "map (\<lambda>i. f (xs ! i) (ys ! i)) [0..<min (length xs) (length ys)]
     = map (\<lambda>(x, y). f x y) (zip xs ys)"
  by (rule nth_equalityI) auto

lemma assemble_zip:
  "assemble fullNames urls = Inr (map (\<lambda>(fullName, url). repo_of fullName url) (zip fullNames urls))"
proof -
  have n: "length (if length fullNames > length urls then urls else fullNames)
             = min (length fullNames) (length urls)"
    by auto
  have "assemble fullNames urls =
          Inr ([] @ map (\<lambda>i. repo_of (fullNames ! i) (urls ! i))
                      [0..<min (length fullNames) (length urls)])"
    unfolding assemble_def Let_def n
    by (rule construct_in_range) auto
  then show ?thesis by (simp add: map_upt_zip)
qed

text \<open>
  C2. For all sequences \<open>fullNames\<close> and \<open>urls\<close>, the empty ones included, the assembler
  returns without an index error; it returns exactly \<open>min (length fullNames) (length urls)\<close>
  records, and they are the two columns paired by position: record \<open>i\<close> holds
  \<open>fullNames ! i\<close>, \<open>urls ! i\<close> and, as its short name, the last field of the full name
  split on whitespace. What the longer column has beyond the shorter is dropped.
\<close>

theorem assemble_min_length_paired:
  "\<exists>repos. assemble fullNames urls = Inr repos
      \<and> length repos = min (length fullNames) (length urls)
      \<and> repos = map (\<lambda>(fullName, url).
                    \<lparr>Name = last (regexp_Split whitespaceRegex fullName),
                     Fullname = fullName, Url = url\<rparr>)
                  (zip fullNames urls)"
  by (simp add: assemble_zip repo_of_def)

section \<open>The backend prober\<close>









section \<open>The package-installed check\<close>

text \<open>
  C6. For every package name: once a manager is selected, \<open>Installed\<close> returns
  \<open>(0, [])\<close> if and only if the package name is a substring of the output of that
  manager's query (run with the option the table gives the manager); when it is not, the
  check returns exit code 1 with a message that names the package and the manager.
\<close>

theorem Installed_iff_substring:
  "getManager start keys = Inr name \<Longrightarrow>
   (Installed start keys output pkg = Inr (0, [])
      \<longleftrightarrow> (\<exists>pre post. output name (managers_at name) pkg = pre @ pkg @ post))
   \<and> ((\<nexists>pre post. output name (managers_at name) pkg = pre @ pkg @ post)
      \<longrightarrow> Installed start keys output pkg
            = Inr (1, ''Package was not found:\<newline>'' @ [CHR 0x09] @ ''Package name: '' @ pkg
                      @ ''\<newline>'' @ [CHR 0x09] @ ''Package manager: '' @ name))
   \<and> managers_at ''dpkg'' = ''-s'' \<and> managers_at ''rpm'' = ''-q''
   \<and> managers_at ''pacman'' = ''-Qs''"
  by (auto simp: Installed_def Let_def Contains_iff managers_at_def managers_def)

theorem Installed_iff_substring_witness: "getManager start_example [''dpkg'', ''rpm'', ''pacman''] = Inr ''rpm''
  \<and> Installed start_example [''dpkg'', ''rpm'', ''pacman''] output_example ''bash'' = Inr (0, [])
  \<and> Installed start_example [''dpkg'', ''rpm'', ''pacman''] output_example ''zsh''
     = Inr (1, ''Package was not found:\<newline>'' @ [CHR 0x09] @ ''Package name: zsh''
                      @ ''\<newline>'' @ [CHR 0x09] @ ''Package manager: rpm'')"
proof -
  have m: "getManager start_example [''dpkg'', ''rpm'', ''pacman''] = Inr ''rpm''"
    by (simp add: getManager_def start_example_def)
  have yes: "output_example ''rpm'' (managers_at ''rpm'') ''bash'' = [] @ ''bash'' @ ''-5.2.26-1.fc38.x86_64''"
    by (simp add: output_example_def managers_at_def managers_def)
  have no: "\<nexists>pre post. output_example ''rpm'' (managers_at ''rpm'') ''zsh'' = pre @ ''zsh'' @ post"
    unfolding Contains_iff [symmetric]
    by (simp add: output_example_def managers_at_def managers_def)
  from Installed_iff_substring [OF m, of output_example "''bash''"] yes
  have 1: "Installed start_example [''dpkg'', ''rpm'', ''pacman''] output_example ''bash'' = Inr (0, [])"
    by blast
  from Installed_iff_substring [OF m, of output_example "''zsh''"] no
  have 2: "Installed start_example [''dpkg'', ''rpm'', ''pacman''] output_example ''zsh''
     = Inr (1, ''Package was not found:\<newline>'' @ [CHR 0x09] @ ''Package name: zsh''
                      @ ''\<newline>'' @ [CHR 0x09] @ ''Package manager: rpm'')"
    by simp
  from m 1 2 show ?thesis by simp
qed

section \<open>The PPA check\<close>

lemma PPA_loop_skips:
  "\<forall>p \<in> set pre. validURL p \<and> \<not> Contains p name \<Longrightarrow>
   PPA_loop validURL name (pre @ rest) = PPA_loop validURL name rest"
  by (induction pre) auto

lemma PPA_loop_None:
  "PPA_loop validURL name ppas = None \<longleftrightarrow> (\<forall>p \<in> set ppas. validURL p \<and> \<not> Contains p name)"
  by (induction ppas) auto

lemma PPA_loop_Some:
  "PPA_loop validURL name ppas = Some r \<Longrightarrow>
   \<exists>pre ppa post. ppas = pre @ ppa # post
      \<and> (\<forall>p \<in> set pre. validURL p \<and> \<not> Contains p name)
      \<and> (if validURL ppa then Contains ppa name \<and> r = (0, [])
          else r = (1, ''PPA URL invalid: '' @ ppa))"
proof (induction ppas)
  case Nil
  then show ?case by simp
next
  case (Cons q qs)
  show ?case
  proof (cases "validURL q \<and> \<not> Contains q name")
    case True
    with Cons.prems have "PPA_loop validURL name qs = Some r" by simp
    then obtain pre ppa post where h: "qs = pre @ ppa # post"
      "\<forall>p \<in> set pre. validURL p \<and> \<not> Contains p name"
      "if validURL ppa then Contains ppa name \<and> r = (0, [])
          else r = (1, ''PPA URL invalid: '' @ ppa)"
      using Cons.IH by blast
    with True have "q # qs = (q # pre) @ ppa # post
       \<and> (\<forall>p \<in> set (q # pre). validURL p \<and> \<not> Contains p name)
       \<and> (if validURL ppa then Contains ppa name \<and> r = (0, [])
          else r = (1, ''PPA URL invalid: '' @ ppa))" by simp
    then show ?thesis by blast
  next
    case False
    with Cons.prems have "q # qs = [] @ q # qs
       \<and> (\<forall>p \<in> set []. validURL p \<and> \<not> Contains p name)
       \<and> (if validURL q then Contains q name \<and> r = (0, [])
          else r = (1, ''PPA URL invalid: '' @ q))"
      by (auto split: if_splits)
    then show ?thesis by blast
  qed
qed

text \<open>
  C5. For every target name and every list of PPA candidates, the first candidate that
  either fails URL parsing or contains the target decides the check. If it fails URL
  parsing (every candidate before it parses and does not contain the target), the check
  returns \<open>(1, ''PPA URL invalid: '' @ ppa)\<close> for that candidate, whatever the target and
  whatever comes later. The check returns \<open>(0, [])\<close> exactly when that first candidate
  parses and contains the target. When every candidate parses and none contains the
  target, the check returns the generic mismatch failure over all the PPA candidates.
\<close>

theorem PPA_first_decides:
  "(getPPAs sources = pre @ ppa # post
      \<and> (\<forall>p \<in> set pre. validURL p \<and> \<not> Contains p name) \<and> \<not> validURL ppa
    \<longrightarrow> PPA sources validURL name = Inr (1, ''PPA URL invalid: '' @ ppa))
   \<and> (PPA sources validURL name = Inr (0, [])
    \<longleftrightarrow> (\<exists>before hit after. getPPAs sources = before @ hit # after
           \<and> (\<forall>p \<in> set before. validURL p \<and> \<not> Contains p name)
           \<and> validURL hit \<and> Contains hit name))
   \<and> ((\<forall>p \<in> set (getPPAs sources). validURL p \<and> \<not> Contains p name)
    \<longrightarrow> PPA sources validURL name = Inr (genericError ''PPA not found'' name (getPPAs sources)))"
proof (intro conjI impI)
  assume a: "getPPAs sources = pre @ ppa # post
      \<and> (\<forall>p \<in> set pre. validURL p \<and> \<not> Contains p name) \<and> \<not> validURL ppa"
  then have "PPA_loop validURL name (getPPAs sources) = PPA_loop validURL name (ppa # post)"
    using PPA_loop_skips [of pre validURL name "ppa # post"] by simp
  with a show "PPA sources validURL name = Inr (1, ''PPA URL invalid: '' @ ppa)"
    by (simp add: PPA_def)
next
  show "PPA sources validURL name = Inr (0, [])
    \<longleftrightarrow> (\<exists>before hit after. getPPAs sources = before @ hit # after
           \<and> (\<forall>p \<in> set before. validURL p \<and> \<not> Contains p name)
           \<and> validURL hit \<and> Contains hit name)"
  proof
    assume r: "PPA sources validURL name = Inr (0, [])"
    have "PPA_loop validURL name (getPPAs sources) = Some (0, [])"
    proof (cases "PPA_loop validURL name (getPPAs sources)")
      case None
      with r show ?thesis by (simp add: PPA_def genericError_def)
    next
      case (Some x)
      with r show ?thesis by (simp add: PPA_def)
    qed
    from PPA_loop_Some [OF this]
    show "\<exists>before hit after. getPPAs sources = before @ hit # after
           \<and> (\<forall>p \<in> set before. validURL p \<and> \<not> Contains p name)
           \<and> validURL hit \<and> Contains hit name"
      by (metis Pair_inject one_neq_zero)
  next
    assume "\<exists>before hit after. getPPAs sources = before @ hit # after
           \<and> (\<forall>p \<in> set before. validURL p \<and> \<not> Contains p name)
           \<and> validURL hit \<and> Contains hit name"
    then obtain before hit after where h: "getPPAs sources = before @ hit # after"
      "\<forall>p \<in> set before. validURL p \<and> \<not> Contains p name" "validURL hit" "Contains hit name"
      by blast
    then have "PPA_loop validURL name (getPPAs sources) = PPA_loop validURL name (hit # after)"
      using PPA_loop_skips [of before validURL name "hit # after"] by simp
    with h show "PPA sources validURL name = Inr (0, [])"
      by (simp add: PPA_def)
  qed
next
  assume "\<forall>p \<in> set (getPPAs sources). validURL p \<and> \<not> Contains p name"
  then have "PPA_loop validURL name (getPPAs sources) = None"
    by (simp only: PPA_loop_None)
  then show "PPA sources validURL name = Inr (genericError ''PPA not found'' name (getPPAs sources))"
    by (simp add: PPA_def)
qed

theorem PPA_first_decides_witness:
  "getPPAs sources_example
     = [''http://ppa.launchpad.net/git-core/ppa/ubuntu'', ''http://ppa.launchpad.net/%zz/ppa/ubuntu'']
   \<and> PPA sources_example url_parses_example ''git-core'' = Inr (0, [])
   \<and> PPA sources_example url_parses_example ''%zz''
       = Inr (1, ''PPA URL invalid: http://ppa.launchpad.net/%zz/ppa/ubuntu'')
   \<and> PPA (take 3 sources_example) url_parses_example ''emacs''
       = Inr (genericError ''PPA not found'' ''emacs''
                [''http://ppa.launchpad.net/git-core/ppa/ubuntu''])"
proof -
  have ppas: "getPPAs sources_example
     = [''http://ppa.launchpad.net/git-core/ppa/ubuntu'', ''http://ppa.launchpad.net/%zz/ppa/ubuntu'']"
    by (simp add: getPPAs_def sources_example_def MatchString_def doExecute_def commentRegex_def)
  have ppas3: "getPPAs (take 3 sources_example) = [''http://ppa.launchpad.net/git-core/ppa/ubuntu'']"
    by (simp add: getPPAs_def sources_example_def MatchString_def doExecute_def commentRegex_def)
  have ok: "url_parses_example ''http://ppa.launchpad.net/git-core/ppa/ubuntu''"
    by (simp add: url_parses_example_def)
  have bad: "\<not> url_parses_example ''http://ppa.launchpad.net/%zz/ppa/ubuntu''"
    by (simp add: url_parses_example_def)
  have hit: "Contains ''http://ppa.launchpad.net/git-core/ppa/ubuntu'' ''git-core''"
    by simp
  have miss: "\<not> Contains ''http://ppa.launchpad.net/git-core/ppa/ubuntu'' ''%zz''"
    by simp
  have miss3: "\<not> Contains ''http://ppa.launchpad.net/git-core/ppa/ubuntu'' ''emacs''"
    by simp
  have 1: "PPA sources_example url_parses_example ''git-core'' = Inr (0, [])"
  proof -
    have "getPPAs sources_example = [] @ ''http://ppa.launchpad.net/git-core/ppa/ubuntu''
              # [''http://ppa.launchpad.net/%zz/ppa/ubuntu'']
          \<and> (\<forall>p \<in> set []. url_parses_example p \<and> \<not> Contains p ''git-core'')
          \<and> url_parses_example ''http://ppa.launchpad.net/git-core/ppa/ubuntu''
          \<and> Contains ''http://ppa.launchpad.net/git-core/ppa/ubuntu'' ''git-core''"
      using ppas ok hit by simp
    then show ?thesis
      using PPA_first_decides [of sources_example "[]" "[]" "[]" url_parses_example "''git-core''"]
      by blast
  qed
  have 2: "PPA sources_example url_parses_example ''%zz''
       = Inr (1, ''PPA URL invalid: http://ppa.launchpad.net/%zz/ppa/ubuntu'')"
    using PPA_first_decides [of sources_example "[''http://ppa.launchpad.net/git-core/ppa/ubuntu'']"
        "''http://ppa.launchpad.net/%zz/ppa/ubuntu''" "[]" url_parses_example "''%zz''"]
      ppas ok bad miss
    by simp
  have 3: "PPA (take 3 sources_example) url_parses_example ''emacs''
       = Inr (genericError ''PPA not found'' ''emacs''
                [''http://ppa.launchpad.net/git-core/ppa/ubuntu''])"
    using PPA_first_decides [of "take 3 sources_example" "[]" "[]" "[]" url_parses_example "''emacs''"]
      ppas3 ok miss3
    by simp
  from ppas 1 2 3 show ?thesis by simp
qed

section \<open>The yum repository checks\<close>

lemma TrimPrefix_changes: "p \<noteq> [] \<Longrightarrow> TrimPrefix s p \<noteq> s \<longleftrightarrow> HasPrefix s p"
  by (auto simp: TrimPrefix_def HasPrefix_iff)

lemma collect_skipped:
  "\<forall>l \<in> set ls. skipped l \<Longrightarrow> collect ls fullNames urls = (fullNames, urls)"
  by (induction ls) (auto simp: skipped_def TrimPrefix_changes Let_def)

lemma collect_append:
  "collect (xs @ ys) fullNames urls =
     (case collect xs fullNames urls of (fullNames', urls') \<Rightarrow> collect ys fullNames' urls')"
  by (induction xs arbitrary: fullNames urls) (auto simp: Let_def)

lemma collect_scenario:
  assumes "\<forall>l \<in> set (before @ between @ after). skipped l"
  shows "collect (before @ [''name=Fedora 38 - x86_64 (updates)''] @ between
                    @ [''baseurl=https://example.com/updates''] @ after) [] []
           = ([''Fedora 38 - x86_64 (updates)''], [''https://example.com/updates''])"
proof -
  from assms have b: "\<forall>l \<in> set before. skipped l" and m: "\<forall>l \<in> set between. skipped l"
    and a: "\<forall>l \<in> set after. skipped l"
    by auto
  have skip: "collect (ls @ rest) fullNames urls = collect rest fullNames urls"
    if "\<forall>l \<in> set ls. skipped l" for ls rest fullNames urls
    using that by (simp add: collect_append collect_skipped)
  have n: "collect (''name=Fedora 38 - x86_64 (updates)'' # rest) [] []
             = collect rest [''Fedora 38 - x86_64 (updates)''] []" for rest
    by (simp add: MatchString_def doExecute_def commentRegex_def TrimPrefix_def)
  have u: "collect (''baseurl=https://example.com/updates'' # rest) fullNames []
             = collect rest fullNames [''https://example.com/updates'']" for rest fullNames
    by (simp add: MatchString_def doExecute_def commentRegex_def TrimPrefix_def)
  have "collect (before @ [''name=Fedora 38 - x86_64 (updates)''] @ between
                    @ [''baseurl=https://example.com/updates''] @ after) [] []
        = collect ([''name=Fedora 38 - x86_64 (updates)''] @ between
                    @ [''baseurl=https://example.com/updates''] @ after) [] []"
    by (rule skip [OF b])
  also have "\<dots> = collect (between @ [''baseurl=https://example.com/updates''] @ after)
                      [''Fedora 38 - x86_64 (updates)''] []"
    by (simp only: append_Cons append_Nil n)
  also have "\<dots> = collect ([''baseurl=https://example.com/updates''] @ after)
                      [''Fedora 38 - x86_64 (updates)''] []"
    by (rule skip [OF m])
  also have "\<dots> = collect after [''Fedora 38 - x86_64 (updates)''] [''https://example.com/updates'']"
    by (simp only: append_Cons append_Nil u)
  also have "\<dots> = ([''Fedora 38 - x86_64 (updates)''], [''https://example.com/updates''])"
    by (rule collect_skipped [OF a])
  finally show ?thesis .
qed

lemma repo_of_scenario:
  "repo_of ''Fedora 38 - x86_64 (updates)'' ''https://example.com/updates''
    = \<lparr>Name = ''(updates)'', Fullname = ''Fedora 38 - x86_64 (updates)'',
        Url = ''https://example.com/updates''\<rparr>"
  by (simp add: repo_of_def regexp_Split_def whitespaceRegex_def allMatches.simps doExecute_def)

lemma Sprint_single: "Sprint [x] = ''['' @ x @ '']''" by (simp add: Sprint_def)

text \<open>
  C3. For a yum configuration whose lines that count (lines that are not comments and
  start with \<^verbatim>\<open>name=\<close> or \<^verbatim>\<open>baseurl=\<close>) are \<^verbatim>\<open>name=Fedora 38 - x86_64 (updates)\<close> and
  \<^verbatim>\<open>baseurl=https://example.com/updates\<close>, \<open>getYumRepos\<close> returns exactly one record:
  its short name is \<^verbatim>\<open>(updates)\<close>, the last whitespace-delimited field of the full name,
  its full name \<^verbatim>\<open>Fedora 38 - x86_64 (updates)\<close> and its URL
  \<^verbatim>\<open>https://example.com/updates\<close>. The check by name for \<^verbatim>\<open>(updates)\<close> returns \<open>(0, [])\<close>,
  and the check by name for \<^verbatim>\<open>nomatch\<close> returns exit code 1 with a message that
  mentions \<^verbatim>\<open>(updates)\<close>.
\<close>

theorem yum_scenario:
  assumes "lines = before @ [''name=Fedora 38 - x86_64 (updates)''] @ between
                    @ [''baseurl=https://example.com/updates''] @ after"
    and "\<forall>l \<in> set (before @ between @ after). skipped l"
  shows "getYumRepos lines
           = Inr [\<lparr>Name = ''(updates)'', Fullname = ''Fedora 38 - x86_64 (updates)'',
                   Url = ''https://example.com/updates''\<rparr>]
         \<and> YumRepoExists lines ''(updates)'' = Inr (0, [])
         \<and> YumRepoExists lines ''nomatch''
             = Inr (genericError ''Yum repo with given Name not found'' ''nomatch'' [''(updates)''])
         \<and> (\<exists>m. YumRepoExists lines ''nomatch'' = Inr (1, m) \<and> Contains m ''(updates)'')"
proof -
  have repos: "getYumRepos lines
           = Inr [\<lparr>Name = ''(updates)'', Fullname = ''Fedora 38 - x86_64 (updates)'',
                   Url = ''https://example.com/updates''\<rparr>]"
    unfolding getYumRepos_def assms(1) collect_scenario [OF assms(2)]
    by (simp add: assemble_zip repo_of_scenario)
  have yes: "YumRepoExists lines ''(updates)'' = Inr (0, [])"
    by (simp add: YumRepoExists_def existsRepoWithProperty_def repos)
  have no: "YumRepoExists lines ''nomatch''
             = Inr (genericError ''Yum repo with given Name not found'' ''nomatch'' [''(updates)''])"
    by (simp add: YumRepoExists_def existsRepoWithProperty_def repos)
  have "Contains (snd (genericError ''Yum repo with given Name not found'' ''nomatch'' [''(updates)''])) ''(updates)''"
    unfolding Contains_iff genericError_def Sprint_single snd_conv
    by (metis append.assoc)
  with no have "\<exists>m. YumRepoExists lines ''nomatch'' = Inr (1, m) \<and> Contains m ''(updates)''"
    by (simp add: genericError_def)
  with repos yes no show ?thesis by blast
qed

theorem yum_scenario_witness:
  "getYumRepos [''name=Fedora 38 - x86_64 (updates)'', ''baseurl=https://example.com/updates'']
     = Inr [\<lparr>Name = ''(updates)'', Fullname = ''Fedora 38 - x86_64 (updates)'',
             Url = ''https://example.com/updates''\<rparr>]
   \<and> YumRepoExists yum_conf_example ''(updates)'' = Inr (0, [])
   \<and> YumRepoExists yum_conf_example ''nomatch''
       = Inr (1, ''Yum repo with given Name not found\<newline>'' @ [CHR 0x09]
                   @ ''Expected: nomatch\<newline>'' @ [CHR 0x09] @ ''Candidates: [(updates)]'')"
proof -
  have 1: "[''name=Fedora 38 - x86_64 (updates)'', ''baseurl=https://example.com/updates'']
         = [] @ [''name=Fedora 38 - x86_64 (updates)''] @ []
              @ [''baseurl=https://example.com/updates''] @ []"
    by simp
  have 2: "\<forall>l \<in> set ([] @ [] @ []). skipped l"
    by simp
  have 3: "yum_conf_example
         = [''[updates]''] @ [''name=Fedora 38 - x86_64 (updates)''] @ [''# the mirror to use'']
              @ [''baseurl=https://example.com/updates''] @ [''enabled=1'']"
    by (simp add: yum_conf_example_def)
  have 4: "\<forall>l \<in> set ([''[updates]''] @ [''# the mirror to use''] @ [''enabled=1'']). skipped l"
    by (simp add: skipped_def MatchString_def doExecute_def commentRegex_def)
  from yum_scenario [OF 1 2] yum_scenario [OF 3 4]
  show ?thesis by (simp add: genericError_def Sprint_def)
qed

lemma properties_loop_unsupported:
  "prop \<noteq> ''Url'' \<Longrightarrow> prop \<noteq> ''Name'' \<Longrightarrow> prop \<noteq> ''Fullname'' \<Longrightarrow>
   properties_loop prop repos properties =
     (case repos of
        [] \<Rightarrow> Inr properties
      | repo # rest \<Rightarrow> Inl (Fatal (''Yum repos don't have the requested property: '' @ prop)))"
  by (cases repos) auto

text \<open>
  C9. The claim is that a lookup with a property name other than \<^verbatim>\<open>Url\<close>, \<^verbatim>\<open>Name\<close> and
  \<^verbatim>\<open>Fullname\<close> always ends the process with a diagnostic that names the property. The
  test of the property name stands inside the loop over the repositories, so it only runs
  when there is a repository: with the two-line configuration of C3 the lookup of
  \<^verbatim>\<open>Version\<close> ends in \<^verbatim>\<open>log.Fatal\<close>, and with a configuration that yields no repository
  the same lookup returns the generic mismatch failure as a check result.
\<close>

theorem existsRepoWithProperty_unsupported_without_repos:
  "existsRepoWithProperty [] ''Version'' ''7''
     = Inr (1, ''Yum repo with given Version not found\<newline>'' @ [CHR 0x09]
                 @ ''Expected: 7\<newline>'' @ [CHR 0x09] @ ''Candidates: []'')
   \<and> existsRepoWithProperty
        [''name=Fedora 38 - x86_64 (updates)'', ''baseurl=https://example.com/updates'']
        ''Version'' ''7''
     = Inl (Fatal ''Yum repos don't have the requested property: Version'')"
proof -
  have "getYumRepos [] = Inr []"
    by (simp add: getYumRepos_def assemble_def)
  then have 1: "existsRepoWithProperty [] ''Version'' ''7''
     = Inr (1, ''Yum repo with given Version not found\<newline>'' @ [CHR 0x09]
                 @ ''Expected: 7\<newline>'' @ [CHR 0x09] @ ''Candidates: []'')"
    by (simp add: existsRepoWithProperty_def genericError_def Sprint_def)
  have "collect [''name=Fedora 38 - x86_64 (updates)'', ''baseurl=https://example.com/updates''] [] []
          = ([''Fedora 38 - x86_64 (updates)''], [''https://example.com/updates''])"
    using collect_scenario [of "[]" "[]" "[]"] by simp
  then have "getYumRepos [''name=Fedora 38 - x86_64 (updates)'', ''baseurl=https://example.com/updates'']
          = Inr [repo_of ''Fedora 38 - x86_64 (updates)'' ''https://example.com/updates'']"
    by (simp add: getYumRepos_def assemble_zip)
  then have 2: "existsRepoWithProperty
        [''name=Fedora 38 - x86_64 (updates)'', ''baseurl=https://example.com/updates'']
        ''Version'' ''7''
     = Inl (Fatal ''Yum repos don't have the requested property: Version'')"
    by (simp add: existsRepoWithProperty_def)
  from 1 2 show ?thesis by simp
qed

section \<open>The pacman ignore check\<close>

lemma FindString_options_example:
  "FindString ignoreRegex ''[options]\<newline>IgnorePkg = foo bar\<newline>HoldPkg = pacman''
     = ''\<newline>IgnorePkg = foo bar''"
  by (simp add: FindString_def doExecute_def ignoreRegex_def)

text \<open>
  C7. The claim is that for a configuration whose first \<^verbatim>\<open>IgnorePkg =\<close> line is
  \<^verbatim>\<open>IgnorePkg = foo bar\<close> the candidates are \<^verbatim>\<open>foo\<close> and \<^verbatim>\<open>bar\<close>, so that the check for
  \<^verbatim>\<open>bar\<close> passes. The pattern starts with \<^verbatim>\<open>[^#]\<close>, which takes one character before
  \<^verbatim>\<open>IgnorePkg\<close>: when the line opens the file there is no such character, nothing is
  found, the candidate list stays empty and the check for \<^verbatim>\<open>bar\<close> fails. When the line
  follows a line break the check does what the claim says: \<^verbatim>\<open>bar\<close> passes, and \<^verbatim>\<open>baz\<close>
  fails with the candidates \<^verbatim>\<open>foo\<close> and \<^verbatim>\<open>bar\<close>.
\<close>

theorem pacmanIgnore_line_at_start_of_file:
  "pacmanIgnore ''IgnorePkg = foo bar'' ''bar''
     = Inr (1, ''Couldn't find package in IgnorePkg\<newline>'' @ [CHR 0x09]
                 @ ''Expected: bar\<newline>'' @ [CHR 0x09] @ ''Candidates: []'')
   \<and> pacmanIgnore ''[options]\<newline>IgnorePkg = foo bar\<newline>HoldPkg = pacman'' ''bar'' = Inr (0, [])
   \<and> pacmanIgnore ''[options]\<newline>IgnorePkg = foo bar\<newline>HoldPkg = pacman'' ''baz''
     = Inr (genericError ''Couldn't find package in IgnorePkg'' ''baz'' [''foo'', ''bar''])"
proof -
  have "FindString ignoreRegex ''IgnorePkg = foo bar'' = []"
    by (simp add: FindString_def doExecute_def ignoreRegex_def)
  then have 1: "pacmanIgnore ''IgnorePkg = foo bar'' ''bar''
     = Inr (1, ''Couldn't find package in IgnorePkg\<newline>'' @ [CHR 0x09]
                 @ ''Expected: bar\<newline>'' @ [CHR 0x09] @ ''Candidates: []'')"
    by (simp add: pacmanIgnore_def genericError_def Sprint_def)
  have 2: "pacmanIgnore ''[options]\<newline>IgnorePkg = foo bar\<newline>HoldPkg = pacman'' ''bar'' = Inr (0, [])"
    by (simp add: pacmanIgnore_def FindString_options_example)
  have 3: "pacmanIgnore ''[options]\<newline>IgnorePkg = foo bar\<newline>HoldPkg = pacman'' ''baz''
     = Inr (genericError ''Couldn't find package in IgnorePkg'' ''baz'' [''foo'', ''bar''])"
    by (simp add: pacmanIgnore_def FindString_options_example)
  from 1 2 3 show ?thesis by simp
qed

section \<open>The systemd unit checks\<close>

lemma commandColumnNoHeader_filter:
  "commandColumnNoHeader col tbl = map (\<lambda>line. line ! col) (filter (\<lambda>line. col < length line) tbl)"
  by (induction tbl) auto

lemma service_loop_Returned:
  "service_loop service state names statuses i actualState = Returned
     \<longleftrightarrow> (\<exists>j < length names. names ! j = service \<and> i + j < length statuses
            \<and> statuses ! (i + j) = state)"
proof (induction names arbitrary: i actualState)
  case Nil
  then show ?case by simp
next
  case (Cons srv rest)
  let ?P = "\<lambda>j. (srv # rest) ! j = service \<and> i + j < length statuses \<and> statuses ! (i + j) = state"
  have split: "(\<exists>j < length (srv # rest). ?P j) \<longleftrightarrow> ?P 0 \<or> (\<exists>j < length rest. ?P (Suc j))"
    by (auto simp: less_Suc_eq_0_disj)
  have tail: "(\<exists>j < length rest. ?P (Suc j))
      \<longleftrightarrow> service_loop service state rest statuses (Suc i) a = Returned" for a
    by (simp add: Cons.IH)
  show ?case
  proof (cases "service = srv \<and> length statuses > i")
    case True
    show ?thesis
    proof (cases "statuses ! i = state")
      case True
      with \<open>service = srv \<and> length statuses > i\<close> have "?P 0" by simp
      then have "\<exists>j < length (srv # rest). ?P j" by (simp only: split) simp
      moreover have "service_loop service state (srv # rest) statuses i actualState = Returned"
        using True \<open>service = srv \<and> length statuses > i\<close> by simp
      ultimately show ?thesis by simp
    next
      case False
      then have "\<not> ?P 0" by simp
      moreover have "service_loop service state (srv # rest) statuses i actualState
          = service_loop service state rest statuses (Suc i) (statuses ! i)"
        using False \<open>service = srv \<and> length statuses > i\<close> by simp
      ultimately show ?thesis
        using split tail [of "statuses ! i"] by auto
    qed
  next
    case False
    then have "\<not> ?P 0" by auto
    moreover have "service_loop service state (srv # rest) statuses i actualState
        = service_loop service state rest statuses (Suc i) actualState"
      using False by auto
    ultimately show ?thesis
      using split tail [of actualState] by auto
  qed
qed

lemma aligned_columns:
  assumes "\<forall>row \<in> set tbl. 1 < length row \<longrightarrow> c < length row" and "1 < c"
  shows "(\<exists>i. i < length (commandColumnNoHeader 1 tbl) \<and> i < length (commandColumnNoHeader c tbl)
            \<and> commandColumnNoHeader 1 tbl ! i = service \<and> commandColumnNoHeader c tbl ! i = state)
         \<longleftrightarrow> (\<exists>row \<in> set tbl. c < length row \<and> row ! 1 = service \<and> row ! c = state)"
proof -
  have same: "filter (\<lambda>line. 1 < length line) tbl = filter (\<lambda>line. c < length line) tbl"
    using assms by (intro filter_cong) auto
  define rows where "rows = filter (\<lambda>line. c < length line) tbl"
  have n: "commandColumnNoHeader 1 tbl = map (\<lambda>line. line ! 1) rows"
    by (simp only: commandColumnNoHeader_filter same rows_def)
  have s: "commandColumnNoHeader c tbl = map (\<lambda>line. line ! c) rows"
    by (simp only: commandColumnNoHeader_filter rows_def)
  have "(\<exists>i. i < length rows \<and> (rows ! i) ! 1 = service \<and> (rows ! i) ! c = state)
        \<longleftrightarrow> (\<exists>row \<in> set rows. row ! 1 = service \<and> row ! c = state)"
    by (metis in_set_conv_nth)
  also have "\<dots> \<longleftrightarrow> (\<exists>row \<in> set tbl. c < length row \<and> row ! 1 = service \<and> row ! c = state)"
    by (auto simp: rows_def)
  finally show ?thesis
    unfolding n s by auto
qed

lemma systemctlService_unfold:
  "systemctlService err units units2 service loaded =
     (case systemctlShouldExist err of
        Some f \<Rightarrow> Inl f
      | None \<Rightarrow>
          (case service_loop service (if loaded then ''loaded'' else ''active'')
                  (commandColumnNoHeader 1 units)
                  (commandColumnNoHeader (if loaded then 2 else 3) units2) 0 [] of
             Returned \<Rightarrow> Inr (0, [])
           | Done actualState \<Rightarrow>
               Inr (genericError ''Service did not have state''
                      (if loaded then ''loaded'' else ''active'') [actualState])))"
proof -
  have c: "(if loaded then 1 else 2) + 1 = (if loaded then 2 else 3 :: nat)"
    by simp
  show ?thesis
    unfolding systemctlService_def Let_def c ..
qed

lemma systemctlService_iff:
  assumes "systemctlExists err"
  shows "systemctlService err units units2 service loaded = Inr (0, [])
     \<longleftrightarrow> (\<exists>i. i < length (commandColumnNoHeader 1 units)
            \<and> i < length (commandColumnNoHeader (if loaded then 2 else 3) units2)
            \<and> commandColumnNoHeader 1 units ! i = service
            \<and> commandColumnNoHeader (if loaded then 2 else 3) units2 ! i
                = (if loaded then ''loaded'' else ''active''))"
proof -
  have none: "systemctlShouldExist err = None"
    using assms by (simp add: systemctlShouldExist_def)
  have "systemctlService err units units2 service loaded = Inr (0, [])
     \<longleftrightarrow> service_loop service (if loaded then ''loaded'' else ''active'')
           (commandColumnNoHeader 1 units)
           (commandColumnNoHeader (if loaded then 2 else 3) units2) 0 [] = Returned"
    unfolding systemctlService_unfold none
    by (simp add: genericError_def split: loop_exit.splits)
  also have "\<dots> \<longleftrightarrow> (\<exists>i. i < length (commandColumnNoHeader 1 units)
            \<and> i < length (commandColumnNoHeader (if loaded then 2 else 3) units2)
            \<and> commandColumnNoHeader 1 units ! i = service
            \<and> commandColumnNoHeader (if loaded then 2 else 3) units2 ! i
                = (if loaded then ''loaded'' else ''active''))"
    unfolding service_loop_Returned by (simp only: add_0) blast
  finally show ?thesis .
qed

text \<open>
  C8, as the code has it. When \<^verbatim>\<open>systemctl\<close> is there, a unit check passes exactly when,
  at some position, the name column holds the target and the state column, read on its
  own from a second run, holds the fixed literal at the same position: \<^verbatim>\<open>active\<close> in
  field 3 for the active check, \<^verbatim>\<open>loaded\<close> in field 2 for the loaded check. When both
  runs of \<^verbatim>\<open>list-units\<close> give the same table and every row with a name field has the
  state field, the positions are the rows: the check passes exactly when some row's unit
  name equals the target and that row's state field equals the literal. So for such
  output in which \<^verbatim>\<open>nginx.service\<close> has \<^verbatim>\<open>active\<close> in the state column, \<open>systemctlActive\<close>
  of \<^verbatim>\<open>nginx.service\<close> returns \<open>(0, [])\<close>.
\<close>

theorem systemctl_unit_check_passes_iff:
  assumes "systemctlExists err"
  shows "(systemctlActive err units units2 service = Inr (0, [])
          \<longleftrightarrow> (\<exists>i. i < length (commandColumnNoHeader 1 units)
                 \<and> i < length (commandColumnNoHeader 3 units2)
                 \<and> commandColumnNoHeader 1 units ! i = service
                 \<and> commandColumnNoHeader 3 units2 ! i = ''active''))
       \<and> (systemctlLoaded err units units2 service = Inr (0, [])
          \<longleftrightarrow> (\<exists>i. i < length (commandColumnNoHeader 1 units)
                 \<and> i < length (commandColumnNoHeader 2 units2)
                 \<and> commandColumnNoHeader 1 units ! i = service
                 \<and> commandColumnNoHeader 2 units2 ! i = ''loaded''))
       \<and> (units2 = units \<and> (\<forall>row \<in> set units. 1 < length row \<longrightarrow> 3 < length row)
          \<longrightarrow> (systemctlActive err units units2 service = Inr (0, [])
                \<longleftrightarrow> (\<exists>row \<in> set units. 3 < length row \<and> row ! 1 = service
                       \<and> row ! 3 = ''active'')))
       \<and> (units2 = units \<and> (\<forall>row \<in> set units. 1 < length row \<longrightarrow> 2 < length row)
          \<longrightarrow> (systemctlLoaded err units units2 service = Inr (0, [])
                \<longleftrightarrow> (\<exists>row \<in> set units. 2 < length row \<and> row ! 1 = service
                       \<and> row ! 2 = ''loaded'')))"
proof -
  have a: "systemctlActive err units units2 service = Inr (0, [])
          \<longleftrightarrow> (\<exists>i. i < length (commandColumnNoHeader 1 units)
                 \<and> i < length (commandColumnNoHeader 3 units2)
                 \<and> commandColumnNoHeader 1 units ! i = service
                 \<and> commandColumnNoHeader 3 units2 ! i = ''active'')" for units2
    using systemctlService_iff [OF assms, of units units2 service False]
    by (simp add: systemctlActive_def)
  have l: "systemctlLoaded err units units2 service = Inr (0, [])
          \<longleftrightarrow> (\<exists>i. i < length (commandColumnNoHeader 1 units)
                 \<and> i < length (commandColumnNoHeader 2 units2)
                 \<and> commandColumnNoHeader 1 units ! i = service
                 \<and> commandColumnNoHeader 2 units2 ! i = ''loaded'')" for units2
    using systemctlService_iff [OF assms, of units units2 service True]
    by (simp add: systemctlLoaded_def)
  have ra: "systemctlActive err units units2 service = Inr (0, [])
                \<longleftrightarrow> (\<exists>row \<in> set units. 3 < length row \<and> row ! 1 = service
                       \<and> row ! 3 = ''active'')"
    if "units2 = units \<and> (\<forall>row \<in> set units. 1 < length row \<longrightarrow> 3 < length row)"
    using that a [of units] aligned_columns [of units 3 service "''active''"] by simp
  have rl: "systemctlLoaded err units units2 service = Inr (0, [])
                \<longleftrightarrow> (\<exists>row \<in> set units. 2 < length row \<and> row ! 1 = service
                       \<and> row ! 2 = ''loaded'')"
    if "units2 = units \<and> (\<forall>row \<in> set units. 1 < length row \<longrightarrow> 2 < length row)"
    using that l [of units] aligned_columns [of units 2 service "''loaded''"] by simp
  from a l ra rl show ?thesis by blast
qed

theorem systemctl_unit_check_passes_iff_witness:
  "systemctlExists None
   \<and> systemctlActive None units_example units_example ''nginx.service'' = Inr (0, [])
   \<and> systemctlLoaded None units_example units_example ''cups.service'' = Inr (0, [])
   \<and> systemctlActive None units_example units_example ''cups.service'' \<noteq> Inr (0, [])"
proof -
  have e: "systemctlExists None"
    by (simp add: systemctlExists_def)
  have w3: "units_example = units_example
      \<and> (\<forall>row \<in> set units_example. 1 < length row \<longrightarrow> 3 < length row)"
    by (simp add: units_example_def)
  have w2: "units_example = units_example
      \<and> (\<forall>row \<in> set units_example. 1 < length row \<longrightarrow> 2 < length row)"
    by (simp add: units_example_def)
  have 1: "\<exists>row \<in> set units_example. 3 < length row \<and> row ! 1 = ''nginx.service''
             \<and> row ! 3 = ''active''"
    by (simp add: units_example_def)
  have 2: "\<exists>row \<in> set units_example. 2 < length row \<and> row ! 1 = ''cups.service''
             \<and> row ! 2 = ''loaded''"
    by (simp add: units_example_def)
  have 3: "\<not> (\<exists>row \<in> set units_example. 3 < length row \<and> row ! 1 = ''cups.service''
             \<and> row ! 3 = ''active'')"
    by (simp add: units_example_def)
  from systemctl_unit_check_passes_iff [OF e, of units_example units_example "''nginx.service''"]
    w3 1
  have a: "systemctlActive None units_example units_example ''nginx.service'' = Inr (0, [])"
    by blast
  from systemctl_unit_check_passes_iff [OF e, of units_example units_example "''cups.service''"]
    w2 w3 2 3
  have b: "systemctlLoaded None units_example units_example ''cups.service'' = Inr (0, [])"
    and c: "systemctlActive None units_example units_example ''cups.service'' \<noteq> Inr (0, [])"
    by blast+
  from e a b c show ?thesis by simp
qed

text \<open>
  C8, as the claim states it, fails in both directions on a table with a row that has a
  name field and no state field, since the two columns are paired by position and that
  row is missing from the state column only. In \<open>ragged_units_example\<close> the row of
  \<^verbatim>\<open>nginx.service\<close> has \<^verbatim>\<open>active\<close> in the state column and the active check fails; in
  \<open>shifted_units_example\<close> no row of \<^verbatim>\<open>nginx.service\<close> has \<^verbatim>\<open>active\<close> there and the active
  check passes, on the state of the next row.
\<close>

theorem systemctlActive_rows_out_of_step:
  "[[], ''nginx.service'', ''loaded'', ''active'', ''running'', ''nginx''] \<in> set ragged_units_example
   \<and> systemctlActive None ragged_units_example ragged_units_example ''nginx.service''
       = Inr (1, ''Service did not have state\<newline>'' @ [CHR 0x09] @ ''Expected: active\<newline>''
                   @ [CHR 0x09] @ ''Candidates: []'')
   \<and> (\<nexists>row. row \<in> set shifted_units_example \<and> 3 < length row \<and> row ! 1 = ''nginx.service''
          \<and> row ! 3 = ''active'')
   \<and> systemctlActive None shifted_units_example shifted_units_example ''nginx.service'' = Inr (0, [])"
proof -
  have 1: "[[], ''nginx.service'', ''loaded'', ''active'', ''running'', ''nginx''] \<in> set ragged_units_example"
    by (simp add: ragged_units_example_def)
  have 2: "systemctlActive None ragged_units_example ragged_units_example ''nginx.service''
       = Inr (1, ''Service did not have state\<newline>'' @ [CHR 0x09] @ ''Expected: active\<newline>''
                   @ [CHR 0x09] @ ''Candidates: []'')"
    by (simp add: systemctlActive_def systemctlService_unfold systemctlShouldExist_def
        systemctlExists_def ragged_units_example_def genericError_def Sprint_def)
  have 3: "\<nexists>row. row \<in> set shifted_units_example \<and> 3 < length row \<and> row ! 1 = ''nginx.service''
          \<and> row ! 3 = ''active''"
    by (auto simp: shifted_units_example_def)
  have 4: "systemctlActive None shifted_units_example shifted_units_example ''nginx.service'' = Inr (0, [])"
    by (simp add: systemctlActive_def systemctlService_unfold systemctlShouldExist_def
        systemctlExists_def shifted_units_example_def)
  from 1 2 3 4 show ?thesis by blast
qed

section \<open>The unit-file status check\<close>

lemma getUnitFilesWithStatuses_two_or_more:
  "2 \<le> length (commandColumnNoHeader 0 files) \<Longrightarrow> 2 \<le> length (commandColumnNoHeader 1 files2) \<Longrightarrow>
   getUnitFilesWithStatuses files files2 =
     Inr (take (length (commandColumnNoHeader 0 files) - 2) (commandColumnNoHeader 0 files),
          take (length (commandColumnNoHeader 1 files2) - 2) (commandColumnNoHeader 1 files2))"
  by (simp add: getUnitFilesWithStatuses_def slice_to_def Let_def nat_diff_distrib')

text \<open>
  C10. For every unit name and status: when the column reader gives fewer than two
  entries for the unit-name column or for the status column of \<^verbatim>\<open>list-unit-files\<close> (as
  it does on empty output), the slice expression that drops the last two entries is out
  of range, and the check panics instead of returning an exit code and a message.
\<close>

theorem unit_file_status_panics:
  "length (commandColumnNoHeader 0 files) < 2 \<or> length (commandColumnNoHeader 1 files2) < 2
   \<Longrightarrow> systemctlUnitFileStatus files files2 unit status = Inl (Panic ''slice bounds out of range'')"
  by (auto simp: systemctlUnitFileStatus_def getUnitFilesWithStatuses_def slice_to_def Let_def)

theorem unit_file_status_panics_witness:
  "length (commandColumnNoHeader 0 []) < 2
   \<and> systemctlUnitFileStatus [] [] ''nginx.service'' ''enabled''
       = Inl (Panic ''slice bounds out of range'')
   \<and> systemctlUnitFileStatus [[''nginx.service'', ''enabled'']] [[''nginx.service'', ''enabled'']]
        ''nginx.service'' ''enabled''
       = Inl (Panic ''slice bounds out of range'')"
proof -
  have 0: "length (commandColumnNoHeader 0 []) < 2"
    by simp
  have 1: "length (commandColumnNoHeader 0 [[''nginx.service'', ''enabled'']]) < 2"
    by simp
  from 0 1
    unit_file_status_panics [of "[]" "[]" "''nginx.service''" "''enabled''"]
    unit_file_status_panics [of "[[''nginx.service'', ''enabled'']]"
      "[[''nginx.service'', ''enabled'']]" "''nginx.service''" "''enabled''"]
  show ?thesis by blast
qed

section \<open>What a check returns\<close>















end
